theory Spec2Isabelle
  imports Main
begin

section \<open>Python values and the runtime the code relies on\<close>

text \<open>
  The values the server handles are the ones \<^verbatim>\<open>json.loads\<close> produces: \<^verbatim>\<open>None\<close>, booleans,
  unbounded integers, floats, strings, lists and dicts with string keys. Floats are kept
  abstract (the type parameter \<open>'f\<close>). A dict is an association list in insertion order;
  Python dicts have no repeated key, and every lookup below returns the entry \<open>map_of\<close> finds.
\<close>

datatype 'f pyval =
    PNone
  | PBool bool
  | PInt int
  | PFloat 'f
  | PStr string
  | PList "'f pyval list"
  | PDict "(string \<times> 'f pyval) list"

type_synonym 'f pydict = "(string \<times> 'f pyval) list"

text \<open>
  The exceptions that reach the server's \<^verbatim>\<open>except\<close> clauses. All of them are subclasses of
  \<^verbatim>\<open>Exception\<close>; the string is what \<^verbatim>\<open>str(e)\<close> returns.
\<close>

datatype pyexn =
    TypeError string
  | OverflowError string
  | ConnectionClosed string
  | OtherException string

fun str_exn :: "pyexn \<Rightarrow> string" where
  "str_exn (TypeError m) = m"
| "str_exn (OverflowError m) = m"
| "str_exn (ConnectionClosed m) = m"
| "str_exn (OtherException m) = m"

fun isinstance_TypeError :: "pyexn \<Rightarrow> bool" where
  "isinstance_TypeError (TypeError m) = True"
| "isinstance_TypeError e = False"


text \<open>
  What the code takes from the Python standard library and the interpreter, as parameters:
  \<^item> \<open>json_loads\<close> is \<^verbatim>\<open>json.loads\<close> on a string; \<open>None\<close> stands for \<^verbatim>\<open>json.JSONDecodeError\<close>,
    raised when the text is not valid JSON;
  \<^item> \<open>json_dumps\<close> is \<^verbatim>\<open>json.dumps\<close>;
  \<^item> \<open>float_nonzero\<close> is the truth value of a float, \<open>float_add\<close> and \<open>float_mul\<close> are
    \<^verbatim>\<open>+\<close> and \<^verbatim>\<open>*\<close> on floats, and \<open>float_of_int\<close> converts an integer for mixed arithmetic
    (\<open>None\<close>: the integer is too large, \<^verbatim>\<open>OverflowError\<close>).
\<close>

record 'f runtime =
  json_loads :: "string \<Rightarrow> 'f pyval option"
  json_dumps :: "'f pyval \<Rightarrow> string"
  float_nonzero :: "'f \<Rightarrow> bool"
  float_add :: "'f \<Rightarrow> 'f \<Rightarrow> 'f"
  float_mul :: "'f \<Rightarrow> 'f \<Rightarrow> 'f"
  float_of_int :: "int \<Rightarrow> 'f option"

text \<open>\<^verbatim>\<open>d.get(k, default)\<close> and \<^verbatim>\<open>d[k] = v\<close>.\<close>

definition dict_get :: "'f pydict \<Rightarrow> string \<Rightarrow> 'f pyval \<Rightarrow> 'f pyval" where
  "dict_get d k dflt = (case map_of d k of None \<Rightarrow> dflt | Some v \<Rightarrow> v)"

fun dict_set :: "'f pydict \<Rightarrow> string \<Rightarrow> 'f pyval \<Rightarrow> 'f pydict" where
  "dict_set [] k v = [(k, v)]"
| "dict_set ((k', v') # d) k v = (if k' = k then (k, v) # d else (k', v') # dict_set d k v)"

text \<open>The truth value of an object (\<^verbatim>\<open>not x\<close> is its negation).\<close>

fun truthy :: "'f runtime \<Rightarrow> 'f pyval \<Rightarrow> bool" where
  "truthy rt PNone = False"
| "truthy rt (PBool b) = b"
| "truthy rt (PInt i) = (i \<noteq> 0)"
| "truthy rt (PFloat x) = float_nonzero rt x"
| "truthy rt (PStr s) = (s \<noteq> [])"
| "truthy rt (PList xs) = (xs \<noteq> [])"
| "truthy rt (PDict d) = (d \<noteq> [])"

fun isinstance_str :: "'f pyval \<Rightarrow> bool" where
  "isinstance_str (PStr s) = True"
| "isinstance_str v = False"

fun isinstance_dict :: "'f pyval \<Rightarrow> bool" where
  "isinstance_dict (PDict d) = True"
| "isinstance_dict v = False"

text \<open>\<^verbatim>\<open>isinstance(x, (int, float))\<close>: \<^verbatim>\<open>bool\<close> is a subclass of \<^verbatim>\<open>int\<close>.\<close>

fun isinstance_int_float :: "'f pyval \<Rightarrow> bool" where
  "isinstance_int_float (PBool b) = True"
| "isinstance_int_float (PInt i) = True"
| "isinstance_int_float (PFloat x) = True"
| "isinstance_int_float v = False"

text \<open>The characters of a \<^verbatim>\<open>str\<close> object, and the entries of a \<^verbatim>\<open>dict\<close> object.\<close>

fun str_value :: "'f pyval \<Rightarrow> string" where
  "str_value (PStr s) = s"
| "str_value v = []"

fun dict_value :: "'f pyval \<Rightarrow> 'f pydict" where
  "dict_value (PDict d) = d"
| "dict_value v = []"

definition quoted :: "string \<Rightarrow> string" where
  "quoted s = CHR 0x27 # s @ [CHR 0x27]"

section \<open>protocol.py\<close>

record 'f RPCError =
  request_id :: "'f pyval"
  code :: string
  message :: string

definition to_dict :: "'f RPCError \<Rightarrow> 'f pyval" where
  "to_dict e =
     PDict [(''request_id'', request_id e),
            (''status'', PStr ''error''),
            (''error'', PDict [(''code'', PStr (code e)), (''message'', PStr (message e))])]"

text \<open>
  The validated request. \<^verbatim>\<open>parse_request\<close> returns a dict with exactly the keys
  \<^verbatim>\<open>request_id\<close>, \<^verbatim>\<open>action\<close> and \<^verbatim>\<open>params\<close>; its action is a \<^verbatim>\<open>str\<close> and its params a
  \<^verbatim>\<open>dict\<close>, which the record's field types say.
\<close>

record 'f request =
  req_request_id :: "'f pyval"
  req_action :: string
  req_params :: "'f pydict"

definition parse_request :: "'f runtime \<Rightarrow> string \<Rightarrow> 'f RPCError + 'f request" where
  "parse_request rt raw =
     (case json_loads rt raw of
        None \<Rightarrow>
          Inl \<lparr>request_id = PNone, code = ''invalid_json'',
               message = ''Payload is not valid JSON''\<rparr>
      | Some payload \<Rightarrow>
          if \<not> isinstance_dict payload
          then Inl \<lparr>request_id = PNone, code = ''invalid_payload'',
                    message = ''Payload must be a JSON object''\<rparr>
          else
            let rid = dict_get (dict_value payload) ''request_id'' PNone;
                action = dict_get (dict_value payload) ''action'' PNone
            in if \<not> truthy rt action \<or> \<not> isinstance_str action
               then Inl \<lparr>request_id = rid, code = ''invalid_action'',
                         message = ''Missing or invalid '' @ quoted ''action''\<rparr>
               else
                 let params = dict_get (dict_value payload) ''params'' (PDict [])
                 in if \<not> isinstance_dict params
                    then Inl \<lparr>request_id = rid, code = ''invalid_params'',
                              message = quoted ''params'' @ '' must be a dictionary''\<rparr>
                    else Inr \<lparr>req_request_id = rid, req_action = str_value action,
                              req_params = dict_value params\<rparr>)"

definition make_response :: "'f pyval \<Rightarrow> string \<Rightarrow> 'f pyval \<Rightarrow> 'f pydict" where
  "make_response rid status result =
     (let base = [(''request_id'', rid), (''status'', PStr status)]
      in if status = ''ok'' then dict_set base ''result'' result
         else dict_set base ''error'' result)"

section \<open>functions.py\<close>

text \<open>
  \<^verbatim>\<open>a + b\<close> and \<^verbatim>\<open>a * b\<close> on objects that passed \<^verbatim>\<open>isinstance(x, (int, float))\<close>. Two
  \<^verbatim>\<open>int\<close>s (booleans count as 0 and 1) give an \<^verbatim>\<open>int\<close>; when one operand is a float the other
  one is converted to a float first, which raises \<^verbatim>\<open>OverflowError\<close> for an integer that is
  too large.
\<close>

fun int_value :: "'f pyval \<Rightarrow> int" where
  "int_value (PBool b) = (if b then 1 else 0)"
| "int_value (PInt i) = i"
| "int_value v = 0"

definition as_float :: "'f runtime \<Rightarrow> 'f pyval \<Rightarrow> pyexn + 'f" where
  "as_float rt v =
     (case v of
        PFloat x \<Rightarrow> Inr x
      | _ \<Rightarrow>
          (case float_of_int rt (int_value v) of
             None \<Rightarrow> Inl (OverflowError ''int too large to convert to float'')
           | Some x \<Rightarrow> Inr x))"

fun is_float :: "'f pyval \<Rightarrow> bool" where
  "is_float (PFloat x) = True"
| "is_float v = False"

definition number_op ::
  "'f runtime \<Rightarrow> (int \<Rightarrow> int \<Rightarrow> int) \<Rightarrow> ('f \<Rightarrow> 'f \<Rightarrow> 'f) \<Rightarrow> 'f pyval \<Rightarrow> 'f pyval \<Rightarrow> pyexn + 'f pyval" where
  "number_op rt iop fop a b =
     (if is_float a \<or> is_float b
      then (case as_float rt a of
              Inl e \<Rightarrow> Inl e
            | Inr x \<Rightarrow>
                (case as_float rt b of
                   Inl e \<Rightarrow> Inl e
                 | Inr y \<Rightarrow> Inr (PFloat (fop x y))))
      else Inr (PInt (iop (int_value a) (int_value b))))"

definition add_numbers :: "'f runtime \<Rightarrow> 'f pyval \<Rightarrow> 'f pyval \<Rightarrow> pyexn + 'f pyval" where
  "add_numbers rt a b =
     (if \<not> isinstance_int_float a \<or> \<not> isinstance_int_float b
      then Inl (TypeError (quoted ''a'' @ '' and '' @ quoted ''b'' @ '' must be numbers''))
      else number_op rt (+) (float_add rt) a b)"

definition multiply_numbers :: "'f runtime \<Rightarrow> 'f pyval \<Rightarrow> 'f pyval \<Rightarrow> pyexn + 'f pyval" where
  "multiply_numbers rt a b =
     (if \<not> isinstance_int_float a \<or> \<not> isinstance_int_float b
      then Inl (TypeError (quoted ''a'' @ '' and '' @ quoted ''b'' @ '' must be numbers''))
      else number_op rt (*) (float_mul rt) a b)"

definition echo :: "'f pyval \<Rightarrow> pyexn + 'f pyval" where
  "echo msg =
     (if \<not> isinstance_str msg
      then Inl (TypeError (quoted ''message'' @ '' must be a string''))
      else Inr msg)"

text \<open>
  A registry entry is called as \<^verbatim>\<open>func(**params)\<close>, so a callable is modelled by what it does
  with the dict of keyword arguments. A coroutine function is awaited, a plain function is
  called; the server reads the difference with \<^verbatim>\<open>asyncio.iscoroutinefunction\<close>.
\<close>

type_synonym 'f pyfunc = "'f pydict \<Rightarrow> pyexn + 'f pyval"

datatype 'f callable = Function "'f pyfunc" | CoroutineFunction "'f pyfunc"

fun iscoroutinefunction :: "'f callable \<Rightarrow> bool" where
  "iscoroutinefunction (CoroutineFunction f) = True"
| "iscoroutinefunction (Function f) = False"

fun body :: "'f callable \<Rightarrow> 'f pyfunc" where
  "body (CoroutineFunction f) = f"
| "body (Function f) = f"

text \<open>
  Binding keyword arguments to the parameters of \<^verbatim>\<open>def f(p)\<close> and \<^verbatim>\<open>def f(p, q)\<close>: a keyword
  that is no parameter is a \<^verbatim>\<open>TypeError\<close>, and so is a parameter left without a value (the
  messages are CPython's).
\<close>

definition unexpected_keyword :: "string \<Rightarrow> string \<Rightarrow> pyexn" where
  "unexpected_keyword fname k =
     TypeError (fname @ ''() got an unexpected keyword argument '' @ quoted k)"

definition missing_one :: "string \<Rightarrow> string \<Rightarrow> pyexn" where
  "missing_one fname p =
     TypeError (fname @ ''() missing 1 required positional argument: '' @ quoted p)"

definition missing_two :: "string \<Rightarrow> string \<Rightarrow> string \<Rightarrow> pyexn" where
  "missing_two fname p q =
     TypeError (fname @ ''() missing 2 required positional arguments: ''
                @ quoted p @ '' and '' @ quoted q)"

definition call1 ::
  "string \<Rightarrow> string \<Rightarrow> ('f pyval \<Rightarrow> pyexn + 'f pyval) \<Rightarrow> 'f pyfunc" where
  "call1 fname p f kwargs =
     (case filter (\<lambda>k. k \<noteq> p) (map fst kwargs) of
        k # ks \<Rightarrow> Inl (unexpected_keyword fname k)
      | [] \<Rightarrow>
          (case map_of kwargs p of
             None \<Rightarrow> Inl (missing_one fname p)
           | Some a \<Rightarrow> f a))"

definition call2 ::
  "string \<Rightarrow> string \<Rightarrow> string \<Rightarrow> ('f pyval \<Rightarrow> 'f pyval \<Rightarrow> pyexn + 'f pyval) \<Rightarrow> 'f pyfunc" where
  "call2 fname p q f kwargs =
     (case filter (\<lambda>k. k \<noteq> p \<and> k \<noteq> q) (map fst kwargs) of
        k # ks \<Rightarrow> Inl (unexpected_keyword fname k)
      | [] \<Rightarrow>
          (case (map_of kwargs p, map_of kwargs q) of
             (None, None) \<Rightarrow> Inl (missing_two fname p q)
           | (None, Some b) \<Rightarrow> Inl (missing_one fname p)
           | (Some a, None) \<Rightarrow> Inl (missing_one fname q)
           | (Some a, Some b) \<Rightarrow> f a b))"

definition FUNCTION_REGISTRY :: "'f runtime \<Rightarrow> string \<Rightarrow> 'f callable option" where
  "FUNCTION_REGISTRY rt =
     map_of
       [(''add_numbers'', Function (call2 ''add_numbers'' ''a'' ''b'' (add_numbers rt))),
        (''multiply_numbers'',
           Function (call2 ''multiply_numbers'' ''a'' ''b'' (multiply_numbers rt))),
        (''echo'', Function (call1 ''echo'' ''message'' echo))]"

section \<open>server.py\<close>

text \<open>
  The connection as the handler sees it. \<open>incoming\<close> are the messages the client sends before
  the connection closes, in order; \<open>closing\<close> is how the iteration over the connection ends
  (\<open>None\<close>: it just stops; \<open>Some e\<close>: it raises \<open>e\<close>); \<open>send_fault\<close> says whether
  \<^verbatim>\<open>ws.send\<close> of a message raises, given what has been written before.
\<close>

record transport =
  incoming :: "string list"
  closing :: "pyexn option"
  send_fault :: "string list \<Rightarrow> string \<Rightarrow> pyexn option"

datatype log_event =
    ClientConnected
  | ClientDisconnected
  | UnhandledError string
  | ConnectionLevelError

text \<open>
  What the handler has done so far: the messages written on the connection, in order, and
  the records logged (\<^verbatim>\<open>logging.debug\<close> is below the configured level and writes nothing).
\<close>

record conn =
  sent :: "string list"
  logged :: "log_event list"

text \<open>
  A statement that may raise returns the state it reached and the pending exception, if
  any.
\<close>

definition ws_send :: "transport \<Rightarrow> conn \<Rightarrow> string \<Rightarrow> conn \<times> pyexn option" where
  "ws_send tr c m =
     (case send_fault tr (sent c) m of
        None \<Rightarrow> (c\<lparr>sent := sent c @ [m]\<rparr>, None)
      | Some e \<Rightarrow> (c, Some e))"

text \<open>Lines 72 to 83: call the handler and send the \<^verbatim>\<open>ok\<close> response, inside the \<^verbatim>\<open>try\<close>.\<close>

definition invoke_and_reply ::
  "'f runtime \<Rightarrow> transport \<Rightarrow> 'f callable \<Rightarrow> 'f request \<Rightarrow> conn \<Rightarrow> conn \<times> pyexn option" where
  "invoke_and_reply rt tr func request c =
     (case (if iscoroutinefunction func then body func (req_params request)
            else body func (req_params request)) of
        Inl e \<Rightarrow> (c, Some e)
      | Inr result \<Rightarrow>
          ws_send tr c
            (json_dumps rt (PDict (make_response (req_request_id request) ''ok'' result))))"

text \<open>
  The body of the \<^verbatim>\<open>async for\<close> loop, lines 43 to 94, for one message. The registry is
  the module's dict \<^verbatim>\<open>FUNCTION_REGISTRY\<close>, read at every message and open to new entries; it
  is the parameter \<open>registry\<close>, and \<open>FUNCTION_REGISTRY rt\<close> is its content as
  \<^verbatim>\<open>functions.py\<close> builds it.
\<close>

definition handle_message ::
  "'f runtime \<Rightarrow> (string \<Rightarrow> 'f callable option) \<Rightarrow> transport \<Rightarrow> string \<Rightarrow> conn
     \<Rightarrow> conn \<times> pyexn option" where
  "handle_message rt registry tr raw c =
     (case parse_request rt raw of
        Inl e \<Rightarrow> ws_send tr c (json_dumps rt (to_dict e))
      | Inr request \<Rightarrow>
          (case registry (req_action request) of
             None \<Rightarrow>
               ws_send tr c
                 (json_dumps rt
                    (to_dict \<lparr>request_id = req_request_id request, code = ''unknown_action'',
                              message = ''Unknown action '' @ quoted (req_action request)\<rparr>))
           | Some func \<Rightarrow>
               (case invoke_and_reply rt tr func request c of
                  (c', None) \<Rightarrow> (c', None)
                | (c', Some e) \<Rightarrow>
                    if isinstance_TypeError e
                    then ws_send tr c'
                           (json_dumps rt
                              (to_dict \<lparr>request_id = req_request_id request,
                                        code = ''invalid_params'', message = str_exn e\<rparr>))
                    else ws_send tr (c'\<lparr>logged := logged c' @ [UnhandledError (req_action request)]\<rparr>)
                           (json_dumps rt
                              (to_dict \<lparr>request_id = req_request_id request,
                                        code = ''server_error'', message = str_exn e\<rparr>)))))"

text \<open>
  The loop: one message after the other; an exception that leaves the body ends it.
\<close>

fun message_loop ::
  "'f runtime \<Rightarrow> (string \<Rightarrow> 'f callable option) \<Rightarrow> transport \<Rightarrow> string list \<Rightarrow> conn
     \<Rightarrow> conn \<times> pyexn option" where
  "message_loop rt registry tr [] c = (c, closing tr)"
| "message_loop rt registry tr (raw # rest) c =
     (case handle_message rt registry tr raw c of
        (c', None) \<Rightarrow> message_loop rt registry tr rest c'
      | (c', Some e) \<Rightarrow> (c', Some e))"


section \<open>client.py\<close>


section \<open>The response to one message\<close>

text \<open>
  A transport that never fails, and what the server writes for one message on a fresh
  connection over it: the response that corresponds to that message.
\<close>

definition reliable :: "string list \<Rightarrow> transport" where
  "reliable msgs = \<lparr>incoming = msgs, closing = None, send_fault = (\<lambda>out m. None)\<rparr>"


section \<open>Sample messages\<close>

text \<open>
  A runtime for the examples: \<^verbatim>\<open>json.loads\<close> and \<^verbatim>\<open>json.dumps\<close> restricted to the texts and
  values listed in \<open>sample_wire\<close> (each pair is a text and the value it encodes; no other
  text is decoded in the examples), and a float type with one element, since no sample
  message holds a float.
\<close>

definition sample_wire :: "(string \<times> unit pyval) list" where
  \<open>sample_wire =
     [(''{"request_id": "r1"}'', PDict [(''request_id'', PStr ''r1'')]),
      (''{"request_id": "r1", "action": 42}'',
         PDict [(''request_id'', PStr ''r1''), (''action'', PInt 42)]),
      (''{"action": ""}'', PDict [(''action'', PStr [])]),
      (''{"request_id": "r7", "action": "echo", "params": [1, 2]}'',
         PDict [(''request_id'', PStr ''r7''), (''action'', PStr ''echo''),
                (''params'', PList [PInt 1, PInt 2])]),
      (''{"request_id": "r8", "action": "echo"}'',
         PDict [(''request_id'', PStr ''r8''), (''action'', PStr ''echo'')]),
      (''{"request_id": "r2", "action": "echo", "params": {"message": "hi"}}'',
         PDict [(''request_id'', PStr ''r2''), (''action'', PStr ''echo''),
                (''params'', PDict [(''message'', PStr ''hi'')])]),
      (''{"request_id": "r3", "action": "bogus", "params": {}}'',
         PDict [(''request_id'', PStr ''r3''), (''action'', PStr ''bogus''),
                (''params'', PDict [])]),
      (''{"request_id": "r4", "action": "add_numbers", "params": {"a": "x", "b": "y"}}'',
         PDict [(''request_id'', PStr ''r4''), (''action'', PStr ''add_numbers''),
                (''params'', PDict [(''a'', PStr ''x''), (''b'', PStr ''y'')])]),
      (''{"request_id": "r5", "action": "fail", "params": {}}'',
         PDict [(''request_id'', PStr ''r5''), (''action'', PStr ''fail''),
                (''params'', PDict [])]),
      (''{"request_id": "r10", "action": "add_numbers", "params": {"a": true, "b": true}}'',
         PDict [(''request_id'', PStr ''r10''), (''action'', PStr ''add_numbers''),
                (''params'', PDict [(''a'', PBool True), (''b'', PBool True)])]),
      (''{"request_id": "r6", "action": "echo", "params": {"msg": "hi"}}'',
         PDict [(''request_id'', PStr ''r6''), (''action'', PStr ''echo''),
                (''params'', PDict [(''msg'', PStr ''hi'')])]),
      (''{"request_id": "r6", "status": "error", "error": {"code": "invalid_params", ''
         @ ''"message": "echo() got an unexpected keyword argument '' @ quoted ''msg'' @ ''"}}'',
         PDict [(''request_id'', PStr ''r6''), (''status'', PStr ''error''),
                (''error'', PDict [(''code'', PStr ''invalid_params''),
                                   (''message'', PStr (''echo() got an unexpected keyword argument ''
                                                       @ quoted ''msg''))])]),
      (''{"request_id": "r2", "status": "ok", "result": "hi"}'',
         PDict [(''request_id'', PStr ''r2''), (''status'', PStr ''ok''),
                (''result'', PStr ''hi'')]),
      (''{"request_id": "r10", "status": "ok", "result": 2}'',
         PDict [(''request_id'', PStr ''r10''), (''status'', PStr ''ok''),
                (''result'', PInt 2)]),
      (''{"request_id": null, "status": "error", "error": {"code": "invalid_json", ''
         @ ''"message": "Payload is not valid JSON"}}'',
         PDict [(''request_id'', PNone), (''status'', PStr ''error''),
                (''error'', PDict [(''code'', PStr ''invalid_json''),
                                   (''message'', PStr ''Payload is not valid JSON'')])]),
      (''{"request_id": "r3", "status": "error", "error": {"code": "unknown_action", ''
         @ ''"message": "Unknown action '' @ quoted ''bogus'' @ ''"}}'',
         PDict [(''request_id'', PStr ''r3''), (''status'', PStr ''error''),
                (''error'', PDict [(''code'', PStr ''unknown_action''),
                                   (''message'', PStr (''Unknown action '' @ quoted ''bogus''))])]),
      (''{"request_id": "r4", "status": "error", "error": {"code": "invalid_params", ''
         @ ''"message": "'' @ quoted ''a'' @ '' and '' @ quoted ''b'' @ '' must be numbers"}}'',
         PDict [(''request_id'', PStr ''r4''), (''status'', PStr ''error''),
                (''error'', PDict [(''code'', PStr ''invalid_params''),
                                   (''message'', PStr (quoted ''a'' @ '' and '' @ quoted ''b''
                                                       @ '' must be numbers''))])]),
      (''{"request_id": "r5", "status": "error", "error": {"code": "server_error", ''
         @ ''"message": "boom"}}'',
         PDict [(''request_id'', PStr ''r5''), (''status'', PStr ''error''),
                (''error'', PDict [(''code'', PStr ''server_error''),
                                   (''message'', PStr ''boom'')])])]\<close>

definition sample_rt :: "unit runtime" where
  "sample_rt =
     \<lparr>json_loads = map_of sample_wire,
      json_dumps = (\<lambda>v. case map_of (map (\<lambda>(t, w). (w, t)) sample_wire) v of
                           None \<Rightarrow> [] | Some t \<Rightarrow> t),
      float_nonzero = (\<lambda>x. False),
      float_add = (\<lambda>x y. ()),
      float_mul = (\<lambda>x y. ()),
      float_of_int = (\<lambda>i. Some ())\<rparr>"

text \<open>The registry with one more handler, which always fails.\<close>

definition sample_registry :: "string \<Rightarrow> unit callable option" where
  "sample_registry =
     (FUNCTION_REGISTRY sample_rt)(''fail'' \<mapsto> Function (\<lambda>kwargs. Inl (OtherException ''boom'')))"

section \<open>Request validation\<close>

lemma sample_loads_simps:
  \<open>json_loads sample_rt ''not json'' = None\<close>
  \<open>json_loads sample_rt ''{"request_id": "r1"}'' = Some (PDict [(''request_id'', PStr ''r1'')])\<close>
  \<open>json_loads sample_rt ''{"request_id": "r1", "action": 42}'' =
     Some (PDict [(''request_id'', PStr ''r1''), (''action'', PInt 42)])\<close>
  \<open>json_loads sample_rt ''{"action": ""}'' = Some (PDict [(''action'', PStr [])])\<close>
  \<open>json_loads sample_rt ''{"request_id": "r7", "action": "echo", "params": [1, 2]}'' =
     Some (PDict [(''request_id'', PStr ''r7''), (''action'', PStr ''echo''),
                  (''params'', PList [PInt 1, PInt 2])])\<close>
  \<open>json_loads sample_rt ''{"request_id": "r8", "action": "echo"}'' =
     Some (PDict [(''request_id'', PStr ''r8''), (''action'', PStr ''echo'')])\<close>
  by (simp_all add: sample_rt_def sample_wire_def)

lemma parse_request_object:
  assumes "json_loads rt raw = Some (PDict d)"
  shows "parse_request rt raw =
     (let rid = dict_get d ''request_id'' PNone;
          action = dict_get d ''action'' PNone
      in if \<not> truthy rt action \<or> \<not> isinstance_str action
         then Inl \<lparr>request_id = rid, code = ''invalid_action'',
                   message = ''Missing or invalid '' @ quoted ''action''\<rparr>
         else
           let params = dict_get d ''params'' (PDict [])
           in if \<not> isinstance_dict params
              then Inl \<lparr>request_id = rid, code = ''invalid_params'',
                        message = quoted ''params'' @ '' must be a dictionary''\<rparr>
              else Inr \<lparr>req_request_id = rid, req_action = str_value action,
                        req_params = dict_value params\<rparr>)"
  using assms by (simp add: parse_request_def Let_def)



text \<open>
  C1: for a payload that is a JSON object whose \<open>action\<close> is missing, is not a string or is
  the empty string, \<open>parse_request\<close> fails with the code \<open>invalid_action\<close>, and the error
  carries the payload's \<open>request_id\<close>: the value stored under that key, \<^verbatim>\<open>None\<close> when the
  key is absent.
\<close>

theorem parse_request_invalid_action:
  assumes "json_loads rt raw = Some (PDict d)"
    and "map_of d ''action'' = None
         \<or> (\<exists>v. map_of d ''action'' = Some v \<and> \<not> isinstance_str v)
         \<or> map_of d ''action'' = Some (PStr [])"
  shows "parse_request rt raw =
     Inl \<lparr>request_id = (case map_of d ''request_id'' of None \<Rightarrow> PNone | Some v \<Rightarrow> v),
          code = ''invalid_action'',
          message = ''Missing or invalid '' @ quoted ''action''\<rparr>"
proof -
  have bad: "\<not> truthy rt (dict_get d ''action'' PNone)
             \<or> \<not> isinstance_str (dict_get d ''action'' PNone)"
    using assms(2) by (auto simp: dict_get_def)
  show ?thesis
    using bad by (simp add: parse_request_object [OF assms(1)] Let_def dict_get_def)
qed

theorem parse_request_invalid_action_witness:
  \<open>parse_request sample_rt ''{"request_id": "r1"}'' =
     Inl \<lparr>request_id = PStr ''r1'', code = ''invalid_action'',
          message = ''Missing or invalid '' @ quoted ''action''\<rparr> \<and>
   parse_request sample_rt ''{"request_id": "r1", "action": 42}'' =
     Inl \<lparr>request_id = PStr ''r1'', code = ''invalid_action'',
          message = ''Missing or invalid '' @ quoted ''action''\<rparr> \<and>
   parse_request sample_rt ''{"action": ""}'' =
     Inl \<lparr>request_id = PNone, code = ''invalid_action'',
          message = ''Missing or invalid '' @ quoted ''action''\<rparr>\<close>
  using
    parse_request_invalid_action [OF sample_loads_simps(2)]
    parse_request_invalid_action [OF sample_loads_simps(3)]
    parse_request_invalid_action [OF sample_loads_simps(4)]
  by simp

text \<open>
  C7: for a payload that is a JSON object with a valid action (a non-empty string),
  \<open>parse_request\<close> fails with the code \<open>invalid_params\<close> and the payload's \<open>request_id\<close>
  when \<open>params\<close> is present and is not an object, and succeeds with empty params when
  \<open>params\<close> is absent.
\<close>

theorem parse_request_params:
  assumes "json_loads rt raw = Some (PDict d)"
    and "map_of d ''action'' = Some (PStr a)"
    and "a \<noteq> []"
  shows "(\<forall>v. map_of d ''params'' = Some v \<and> \<not> isinstance_dict v \<longrightarrow>
            parse_request rt raw =
              Inl \<lparr>request_id = dict_get d ''request_id'' PNone, code = ''invalid_params'',
                   message = quoted ''params'' @ '' must be a dictionary''\<rparr>)
       \<and> (map_of d ''params'' = None \<longrightarrow>
            parse_request rt raw =
              Inr \<lparr>req_request_id = dict_get d ''request_id'' PNone, req_action = a,
                   req_params = []\<rparr>)"
  using assms(2,3)
  by (simp add: parse_request_object [OF assms(1)] Let_def dict_get_def)

theorem parse_request_params_witness:
  \<open>parse_request sample_rt ''{"request_id": "r7", "action": "echo", "params": [1, 2]}'' =
     Inl \<lparr>request_id = PStr ''r7'', code = ''invalid_params'',
          message = quoted ''params'' @ '' must be a dictionary''\<rparr> \<and>
   parse_request sample_rt ''{"request_id": "r8", "action": "echo"}'' =
     Inr \<lparr>req_request_id = PStr ''r8'', req_action = ''echo'', req_params = []\<rparr>\<close>
  using
    parse_request_params [OF sample_loads_simps(5), of "''echo''"]
    parse_request_params [OF sample_loads_simps(6), of "''echo''"]
  by (simp add: dict_get_def)





section \<open>Responses\<close>

text \<open>
  C8: a response built with status \<open>ok\<close> has a \<open>result\<close> field holding the result and no
  \<open>error\<close> field; one built with status \<open>error\<close> has an \<open>error\<close> field and no \<open>result\<close>
  field; both carry the given request id and status. The dict of an \<open>RPCError\<close> has the same
  shape as the second.
\<close>

theorem make_response_fields:
  "map_of (make_response rid ''ok'' r) ''request_id'' = Some rid
   \<and> map_of (make_response rid ''ok'' r) ''status'' = Some (PStr ''ok'')
   \<and> map_of (make_response rid ''ok'' r) ''result'' = Some r
   \<and> map_of (make_response rid ''ok'' r) ''error'' = None
   \<and> map_of (make_response rid ''error'' r) ''request_id'' = Some rid
   \<and> map_of (make_response rid ''error'' r) ''status'' = Some (PStr ''error'')
   \<and> map_of (make_response rid ''error'' r) ''error'' = Some r
   \<and> map_of (make_response rid ''error'' r) ''result'' = None
   \<and> map_of (dict_value (to_dict e)) ''request_id'' = Some (request_id e)
   \<and> map_of (dict_value (to_dict e)) ''status'' = Some (PStr ''error'')
   \<and> map_of (dict_value (to_dict e)) ''error'' =
         Some (PDict [(''code'', PStr (code e)), (''message'', PStr (message e))])
   \<and> map_of (dict_value (to_dict e)) ''result'' = None"
  by (simp add: make_response_def to_dict_def)

theorem make_response_fields_witness:
  "make_response (PStr ''r1'') ''ok'' (PInt 30 :: unit pyval) =
     [(''request_id'', PStr ''r1''), (''status'', PStr ''ok''), (''result'', PInt 30)]
   \<and> make_response (PStr ''r1'') ''error'' (PStr ''bad'' :: unit pyval) =
     [(''request_id'', PStr ''r1''), (''status'', PStr ''error''), (''error'', PStr ''bad'')]
   \<and> map_of (make_response (PStr ''r1'') ''ok'' (PInt 30 :: unit pyval)) ''result'' = Some (PInt 30)
   \<and> map_of (make_response (PStr ''r1'') ''error'' (PStr ''bad'' :: unit pyval)) ''result'' = None"
  using make_response_fields [of "PStr ''r1''" "PInt 30 :: unit pyval"]
    make_response_fields [of "PStr ''r1''" "PStr ''bad'' :: unit pyval"]
  by (simp add: make_response_def)

section \<open>The registered handlers\<close>

lemma call1_unexpected:
  assumes "k \<in> set (map fst kwargs)" and "k \<noteq> p"
  shows "\<exists>m. call1 fname p f kwargs = Inl (TypeError m)"
proof -
  have "k \<in> set (filter (\<lambda>k. k \<noteq> p) (map fst kwargs))"
    using assms by simp
  then obtain k' ks where "filter (\<lambda>k. k \<noteq> p) (map fst kwargs) = k' # ks"
    by (cases "filter (\<lambda>k. k \<noteq> p) (map fst kwargs)") auto
  then show ?thesis
    by (simp add: call1_def unexpected_keyword_def)
qed

lemma call2_unexpected:
  assumes "k \<in> set (map fst kwargs)" and "k \<noteq> p" and "k \<noteq> q"
  shows "\<exists>m. call2 fname p q f kwargs = Inl (TypeError m)"
proof -
  have "k \<in> set (filter (\<lambda>k. k \<noteq> p \<and> k \<noteq> q) (map fst kwargs))"
    using assms by simp
  then obtain k' ks where "filter (\<lambda>k. k \<noteq> p \<and> k \<noteq> q) (map fst kwargs) = k' # ks"
    by (cases "filter (\<lambda>k. k \<noteq> p \<and> k \<noteq> q) (map fst kwargs)") auto
  then show ?thesis
    by (simp add: call2_def unexpected_keyword_def)
qed

lemma call1_missing:
  assumes "map_of kwargs p = None"
  shows "\<exists>m. call1 fname p f kwargs = Inl (TypeError m)"
  using assms
  by (simp add: call1_def unexpected_keyword_def missing_one_def split: list.splits)

lemma call2_missing:
  assumes "map_of kwargs p = None \<or> map_of kwargs q = None"
  shows "\<exists>m. call2 fname p q f kwargs = Inl (TypeError m)"
  using assms
  by (auto simp: call2_def unexpected_keyword_def missing_one_def missing_two_def
      split: list.splits option.splits)

lemma call2_bound:
  assumes "set (map fst kwargs) \<subseteq> {p, q}"
    and "map_of kwargs p = Some a" and "map_of kwargs q = Some b"
  shows "call2 fname p q f kwargs = f a b"
proof -
  have "filter (\<lambda>k. k \<noteq> p \<and> k \<noteq> q) (map fst kwargs) = []"
    using assms(1) by (auto simp: filter_empty_conv)
  then show ?thesis
    using assms(2,3) by (simp add: call2_def)
qed

lemma add_numbers_rejects:
  assumes "\<not> isinstance_int_float a \<or> \<not> isinstance_int_float b"
  shows "add_numbers rt a b =
     Inl (TypeError (quoted ''a'' @ '' and '' @ quoted ''b'' @ '' must be numbers''))"
  using assms by (auto simp: add_numbers_def)

lemma multiply_numbers_rejects:
  assumes "\<not> isinstance_int_float a \<or> \<not> isinstance_int_float b"
  shows "multiply_numbers rt a b =
     Inl (TypeError (quoted ''a'' @ '' and '' @ quoted ''b'' @ '' must be numbers''))"
  using assms by (auto simp: multiply_numbers_def)

lemma echo_rejects:
  assumes "\<not> isinstance_str msg"
  shows "echo msg = Inl (TypeError (quoted ''message'' @ '' must be a string''))"
  using assms by (simp add: echo_def)

lemma add_numbers_overflow:
  assumes "float_of_int rt i = None"
  shows "add_numbers rt (PInt i) (PFloat x) =
     Inl (OverflowError ''int too large to convert to float'')"
  using assms by (simp add: add_numbers_def number_op_def as_float_def)

lemma add_numbers_ints: "add_numbers rt (PInt i) (PInt j) = Inr (PInt (i + j))"
  by (simp add: add_numbers_def number_op_def)

lemma FUNCTION_REGISTRY_keys:
  "(FUNCTION_REGISTRY rt name = None) =
     (name \<noteq> ''add_numbers'' \<and> name \<noteq> ''multiply_numbers'' \<and> name \<noteq> ''echo'')"
  by (simp add: FUNCTION_REGISTRY_def)

section \<open>Dispatch\<close>

lemma ws_send_ok:
  assumes "send_fault tr (sent c) m = None"
  shows "ws_send tr c m = (c\<lparr>sent := sent c @ [m]\<rparr>, None)"
  using assms by (simp add: ws_send_def)

lemma message_loop_continue:
  assumes "handle_message rt registry tr raw c = (c', None)"
  shows "message_loop rt registry tr (raw # rest) c = message_loop rt registry tr rest c'"
  using assms by simp

text \<open>
  C3: for a validated request whose action is no key of the registry, the server writes
  the error response with the code \<open>unknown_action\<close>, the message
  \<^verbatim>\<open>Unknown action '<action>'\<close> and the request's id, and the loop goes on with the next
  message (as long as the write itself succeeds).
\<close>

theorem dispatch_unknown_action:
  assumes "parse_request rt raw = Inr request"
    and "registry (req_action request) = None"
    and "send_fault tr (sent c)
           (json_dumps rt
              (to_dict \<lparr>request_id = req_request_id request, code = ''unknown_action'',
                        message = ''Unknown action '' @ quoted (req_action request)\<rparr>)) = None"
  shows "handle_message rt registry tr raw c =
           (c\<lparr>sent := sent c @
                [json_dumps rt
                   (to_dict \<lparr>request_id = req_request_id request, code = ''unknown_action'',
                             message = ''Unknown action '' @ quoted (req_action request)\<rparr>)]\<rparr>,
            None)
       \<and> message_loop rt registry tr (raw # rest) c =
           message_loop rt registry tr rest
             (c\<lparr>sent := sent c @
                [json_dumps rt
                   (to_dict \<lparr>request_id = req_request_id request, code = ''unknown_action'',
                             message = ''Unknown action '' @ quoted (req_action request)\<rparr>)]\<rparr>)"
proof -
  have step: "handle_message rt registry tr raw c =
           (c\<lparr>sent := sent c @
                [json_dumps rt
                   (to_dict \<lparr>request_id = req_request_id request, code = ''unknown_action'',
                             message = ''Unknown action '' @ quoted (req_action request)\<rparr>)]\<rparr>,
            None)"
    using assms by (simp add: handle_message_def ws_send_def)
  show ?thesis
    using step message_loop_continue [OF step] by simp
qed

lemma sample_parse_simps:
  \<open>parse_request sample_rt ''{"request_id": "r3", "action": "bogus", "params": {}}'' =
     Inr \<lparr>req_request_id = PStr ''r3'', req_action = ''bogus'', req_params = []\<rparr>\<close>
  \<open>parse_request sample_rt
       ''{"request_id": "r4", "action": "add_numbers", "params": {"a": "x", "b": "y"}}'' =
     Inr \<lparr>req_request_id = PStr ''r4'', req_action = ''add_numbers'',
          req_params = [(''a'', PStr ''x''), (''b'', PStr ''y'')]\<rparr>\<close>
  \<open>parse_request sample_rt ''{"request_id": "r6", "action": "echo", "params": {"msg": "hi"}}'' =
     Inr \<lparr>req_request_id = PStr ''r6'', req_action = ''echo'',
          req_params = [(''msg'', PStr ''hi'')]\<rparr>\<close>
  \<open>parse_request sample_rt ''{"request_id": "r5", "action": "fail", "params": {}}'' =
     Inr \<lparr>req_request_id = PStr ''r5'', req_action = ''fail'', req_params = []\<rparr>\<close>
  \<open>parse_request sample_rt
       ''{"request_id": "r10", "action": "add_numbers", "params": {"a": true, "b": true}}'' =
     Inr \<lparr>req_request_id = PStr ''r10'', req_action = ''add_numbers'',
          req_params = [(''a'', PBool True), (''b'', PBool True)]\<rparr>\<close>
  \<open>parse_request sample_rt ''{"request_id": "r2", "action": "echo", "params": {"message": "hi"}}'' =
     Inr \<lparr>req_request_id = PStr ''r2'', req_action = ''echo'',
          req_params = [(''message'', PStr ''hi'')]\<rparr>\<close>
  \<open>parse_request sample_rt ''not json'' =
     Inl \<lparr>request_id = PNone, code = ''invalid_json'', message = ''Payload is not valid JSON''\<rparr>\<close>
  by (simp_all add: parse_request_def sample_rt_def sample_wire_def dict_get_def)

lemma sample_dumps_simps:
  \<open>json_dumps sample_rt
     (to_dict \<lparr>request_id = PStr ''r3'', code = ''unknown_action'',
               message = ''Unknown action '' @ quoted ''bogus''\<rparr>) =
   ''{"request_id": "r3", "status": "error", "error": {"code": "unknown_action", ''
     @ ''"message": "Unknown action '' @ quoted ''bogus'' @ ''"}}''\<close>
  \<open>json_dumps sample_rt
     (to_dict \<lparr>request_id = PStr ''r4'', code = ''invalid_params'',
               message = quoted ''a'' @ '' and '' @ quoted ''b'' @ '' must be numbers''\<rparr>) =
   ''{"request_id": "r4", "status": "error", "error": {"code": "invalid_params", ''
     @ ''"message": "'' @ quoted ''a'' @ '' and '' @ quoted ''b'' @ '' must be numbers"}}''\<close>
  \<open>json_dumps sample_rt
     (to_dict \<lparr>request_id = PStr ''r6'', code = ''invalid_params'',
               message = ''echo() got an unexpected keyword argument '' @ quoted ''msg''\<rparr>) =
   ''{"request_id": "r6", "status": "error", "error": {"code": "invalid_params", ''
     @ ''"message": "echo() got an unexpected keyword argument '' @ quoted ''msg'' @ ''"}}''\<close>
  \<open>json_dumps sample_rt
     (to_dict \<lparr>request_id = PStr ''r5'', code = ''server_error'', message = ''boom''\<rparr>) =
   ''{"request_id": "r5", "status": "error", "error": {"code": "server_error", ''
     @ ''"message": "boom"}}''\<close>
  \<open>json_dumps sample_rt
     (to_dict \<lparr>request_id = PNone, code = ''invalid_json'',
               message = ''Payload is not valid JSON''\<rparr>) =
   ''{"request_id": null, "status": "error", "error": {"code": "invalid_json", ''
     @ ''"message": "Payload is not valid JSON"}}''\<close>
  \<open>json_dumps sample_rt (PDict (make_response (PStr ''r10'') ''ok'' (PInt 2))) =
   ''{"request_id": "r10", "status": "ok", "result": 2}''\<close>
  \<open>json_dumps sample_rt (PDict (make_response (PStr ''r2'') ''ok'' (PStr ''hi''))) =
   ''{"request_id": "r2", "status": "ok", "result": "hi"}''\<close>
  by (simp_all add: sample_rt_def sample_wire_def to_dict_def make_response_def quoted_def)

lemma sample_registry_simps:
  "sample_registry ''bogus'' = None"
  "sample_registry ''fail'' = Some (Function (\<lambda>kwargs. Inl (OtherException ''boom'')))"
  "sample_registry ''add_numbers'' =
     Some (Function (call2 ''add_numbers'' ''a'' ''b'' (add_numbers sample_rt)))"
  "sample_registry ''echo'' = Some (Function (call1 ''echo'' ''message'' echo))"
  by (simp_all add: sample_registry_def FUNCTION_REGISTRY_def)

theorem dispatch_unknown_action_witness:
  \<open>handle_message sample_rt sample_registry (reliable [])
      ''{"request_id": "r3", "action": "bogus", "params": {}}''
      \<lparr>sent = [], logged = [ClientConnected]\<rparr> =
     (\<lparr>sent = [''{"request_id": "r3", "status": "error", "error": {"code": "unknown_action", ''
                 @ ''"message": "Unknown action '' @ quoted ''bogus'' @ ''"}}''],
       logged = [ClientConnected]\<rparr>, None)\<close>
proof -
  have registry: "sample_registry
      (req_action \<lparr>req_request_id = PStr ''r3'', req_action = ''bogus'',
                   req_params = ([] :: unit pydict)\<rparr>) = None"
    by (simp add: sample_registry_simps)
  have send: "send_fault (reliable []) (sent \<lparr>sent = [], logged = [ClientConnected]\<rparr>) m = None"
    for m
    by (simp add: reliable_def)
  from dispatch_unknown_action
    [where registry = sample_registry and tr = "reliable []"
      and c = "\<lparr>sent = [], logged = [ClientConnected]\<rparr>" and rest = "[]",
      OF sample_parse_simps(1) registry send]
  show ?thesis
    using sample_dumps_simps(1) by simp
qed

text \<open>
  C4: when the handler looked up for a validated request raises a \<^verbatim>\<open>TypeError\<close> (the
  keyword arguments do not fit its parameters, or it rejects their values), the server
  writes the error response with the code \<open>invalid_params\<close>, the exception's message and
  the request's id, and the loop goes on with the next message.
\<close>

theorem dispatch_invalid_params:
  assumes "parse_request rt raw = Inr request"
    and "registry (req_action request) = Some func"
    and "body func (req_params request) = Inl (TypeError m)"
    and "send_fault tr (sent c)
           (json_dumps rt
              (to_dict \<lparr>request_id = req_request_id request, code = ''invalid_params'',
                        message = m\<rparr>)) = None"
  shows "handle_message rt registry tr raw c =
           (c\<lparr>sent := sent c @
                [json_dumps rt
                   (to_dict \<lparr>request_id = req_request_id request, code = ''invalid_params'',
                             message = m\<rparr>)]\<rparr>,
            None)
       \<and> message_loop rt registry tr (raw # rest) c =
           message_loop rt registry tr rest
             (c\<lparr>sent := sent c @
                [json_dumps rt
                   (to_dict \<lparr>request_id = req_request_id request, code = ''invalid_params'',
                             message = m\<rparr>)]\<rparr>)"
proof -
  have step: "handle_message rt registry tr raw c =
           (c\<lparr>sent := sent c @
                [json_dumps rt
                   (to_dict \<lparr>request_id = req_request_id request, code = ''invalid_params'',
                             message = m\<rparr>)]\<rparr>,
            None)"
    using assms by (simp add: handle_message_def invoke_and_reply_def ws_send_def)
  show ?thesis
    using step message_loop_continue [OF step] by simp
qed

theorem dispatch_invalid_params_witness:
  \<open>handle_message sample_rt sample_registry (reliable [])
      ''{"request_id": "r4", "action": "add_numbers", "params": {"a": "x", "b": "y"}}''
      \<lparr>sent = [], logged = [ClientConnected]\<rparr> =
     (\<lparr>sent = [''{"request_id": "r4", "status": "error", "error": {"code": "invalid_params", ''
                 @ ''"message": "'' @ quoted ''a'' @ '' and '' @ quoted ''b''
                 @ '' must be numbers"}}''],
       logged = [ClientConnected]\<rparr>, None) \<and>
   handle_message sample_rt sample_registry (reliable [])
      ''{"request_id": "r6", "action": "echo", "params": {"msg": "hi"}}''
      \<lparr>sent = [], logged = [ClientConnected]\<rparr> =
     (\<lparr>sent = [''{"request_id": "r6", "status": "error", "error": {"code": "invalid_params", ''
                 @ ''"message": "echo() got an unexpected keyword argument '' @ quoted ''msg''
                 @ ''"}}''],
       logged = [ClientConnected]\<rparr>, None)\<close>
proof -
  have send: "send_fault (reliable []) (sent \<lparr>sent = [], logged = [ClientConnected]\<rparr>) m = None"
    for m
    by (simp add: reliable_def)
  have registry_add: "sample_registry
      (req_action \<lparr>req_request_id = PStr ''r4'', req_action = ''add_numbers'',
                   req_params = [(''a'', PStr ''x''), (''b'', PStr ''y'' :: unit pyval)]\<rparr>) =
      Some (Function (call2 ''add_numbers'' ''a'' ''b'' (add_numbers sample_rt)))"
    by (simp add: sample_registry_simps)
  have raise_add: "body (Function (call2 ''add_numbers'' ''a'' ''b'' (add_numbers sample_rt)))
      (req_params \<lparr>req_request_id = PStr ''r4'', req_action = ''add_numbers'',
                   req_params = [(''a'', PStr ''x''), (''b'', PStr ''y'' :: unit pyval)]\<rparr>) =
      Inl (TypeError (quoted ''a'' @ '' and '' @ quoted ''b'' @ '' must be numbers''))"
    by (simp add: call2_def add_numbers_def)
  have registry_echo: "sample_registry
      (req_action \<lparr>req_request_id = PStr ''r6'', req_action = ''echo'',
                   req_params = [(''msg'', PStr ''hi'' :: unit pyval)]\<rparr>) =
      Some (Function (call1 ''echo'' ''message'' echo))"
    by (simp add: sample_registry_simps)
  have raise_echo: "body (Function (call1 ''echo'' ''message'' echo))
      (req_params \<lparr>req_request_id = PStr ''r6'', req_action = ''echo'',
                   req_params = [(''msg'', PStr ''hi'' :: unit pyval)]\<rparr>) =
      Inl (TypeError (''echo() got an unexpected keyword argument '' @ quoted ''msg''))"
    by (simp add: call1_def unexpected_keyword_def)
  from dispatch_invalid_params
    [where registry = sample_registry and tr = "reliable []"
      and c = "\<lparr>sent = [], logged = [ClientConnected]\<rparr>" and rest = "[]",
      OF sample_parse_simps(2) registry_add raise_add send]
    dispatch_invalid_params
    [where registry = sample_registry and tr = "reliable []"
      and c = "\<lparr>sent = [], logged = [ClientConnected]\<rparr>" and rest = "[]",
      OF sample_parse_simps(3) registry_echo raise_echo send]
  show ?thesis
    using sample_dumps_simps(2,3) by simp
qed

text \<open>
  C5: when the handler looked up for a validated request raises an exception that is no
  \<^verbatim>\<open>TypeError\<close>, the server logs it, writes the error response with the code
  \<open>server_error\<close>, the exception's message and the request's id, and the loop goes on with
  the messages that follow on the same connection.
\<close>

theorem dispatch_server_error:
  assumes "parse_request rt raw = Inr request"
    and "registry (req_action request) = Some func"
    and "body func (req_params request) = Inl e"
    and "\<not> isinstance_TypeError e"
    and "send_fault tr (sent c)
           (json_dumps rt
              (to_dict \<lparr>request_id = req_request_id request, code = ''server_error'',
                        message = str_exn e\<rparr>)) = None"
  shows "handle_message rt registry tr raw c =
           (c\<lparr>logged := logged c @ [UnhandledError (req_action request)],
               sent := sent c @
                [json_dumps rt
                   (to_dict \<lparr>request_id = req_request_id request, code = ''server_error'',
                             message = str_exn e\<rparr>)]\<rparr>,
            None)
       \<and> message_loop rt registry tr (raw # rest) c =
           message_loop rt registry tr rest
             (c\<lparr>logged := logged c @ [UnhandledError (req_action request)],
                 sent := sent c @
                  [json_dumps rt
                     (to_dict \<lparr>request_id = req_request_id request, code = ''server_error'',
                               message = str_exn e\<rparr>)]\<rparr>)"
proof -
  have step: "handle_message rt registry tr raw c =
           (c\<lparr>logged := logged c @ [UnhandledError (req_action request)],
               sent := sent c @
                [json_dumps rt
                   (to_dict \<lparr>request_id = req_request_id request, code = ''server_error'',
                             message = str_exn e\<rparr>)]\<rparr>,
            None)"
    using assms by (simp add: handle_message_def invoke_and_reply_def ws_send_def)
  show ?thesis
    using step message_loop_continue [OF step] by simp
qed

theorem dispatch_server_error_witness:
  \<open>message_loop sample_rt sample_registry (reliable [])
      [''{"request_id": "r5", "action": "fail", "params": {}}'',
       ''{"request_id": "r2", "action": "echo", "params": {"message": "hi"}}'']
      \<lparr>sent = [], logged = [ClientConnected]\<rparr> =
     (\<lparr>sent = [''{"request_id": "r5", "status": "error", "error": {"code": "server_error", ''
                 @ ''"message": "boom"}}'',
               ''{"request_id": "r2", "status": "ok", "result": "hi"}''],
       logged = [ClientConnected, UnhandledError ''fail'']\<rparr>, None)\<close>
proof -
  have send: "send_fault (reliable []) (sent \<lparr>sent = [], logged = [ClientConnected]\<rparr>) m = None"
    for m
    by (simp add: reliable_def)
  have registry: "sample_registry
      (req_action \<lparr>req_request_id = PStr ''r5'', req_action = ''fail'',
                   req_params = ([] :: unit pydict)\<rparr>) =
      Some (Function (\<lambda>kwargs. Inl (OtherException ''boom'')))"
    by (simp add: sample_registry_simps)
  have raise: "body (Function (\<lambda>kwargs. Inl (OtherException ''boom'')))
      (req_params \<lparr>req_request_id = PStr ''r5'', req_action = ''fail'',
                   req_params = ([] :: unit pydict)\<rparr>) = Inl (OtherException ''boom'')"
    by simp
  have other: "\<not> isinstance_TypeError (OtherException ''boom'')"
    by simp
  from dispatch_server_error
    [where registry = sample_registry and tr = "reliable []"
      and c = "\<lparr>sent = [], logged = [ClientConnected]\<rparr>"
      and rest = \<open>[''{"request_id": "r2", "action": "echo", "params": {"message": "hi"}}'']\<close>,
      OF sample_parse_simps(4) registry raise other send]
  show ?thesis
    using sample_dumps_simps(4,7) sample_parse_simps(6) sample_registry_simps(4)
    by (simp add: handle_message_def invoke_and_reply_def ws_send_def reliable_def
        call1_def echo_def)
qed

text \<open>
  C10: \<open>add_numbers\<close> accepts booleans and returns their sum as an integer
  (\<^verbatim>\<open>add_numbers(True, True) = 2\<close>), so a request for \<open>add_numbers\<close> whose params bind \<open>a\<close> and
  \<open>b\<close> to booleans is answered with the \<open>ok\<close> response holding that sum.
\<close>

theorem add_numbers_booleans:
  assumes "parse_request rt raw = Inr request"
    and "req_action request = ''add_numbers''"
    and "set (map fst (req_params request)) \<subseteq> {''a'', ''b''}"
    and "map_of (req_params request) ''a'' = Some (PBool a)"
    and "map_of (req_params request) ''b'' = Some (PBool b)"
    and "send_fault tr (sent c)
           (json_dumps rt
              (PDict (make_response (req_request_id request) ''ok''
                        (PInt ((if a then 1 else 0) + (if b then 1 else 0)))))) = None"
  shows "add_numbers rt (PBool a) (PBool b) = Inr (PInt ((if a then 1 else 0) + (if b then 1 else 0)))
       \<and> handle_message rt (FUNCTION_REGISTRY rt) tr raw c =
           (c\<lparr>sent := sent c @
                [json_dumps rt
                   (PDict (make_response (req_request_id request) ''ok''
                             (PInt ((if a then 1 else 0) + (if b then 1 else 0)))))]\<rparr>,
            None)"
proof -
  have sum: "add_numbers rt (PBool a) (PBool b) =
      Inr (PInt ((if a then 1 else 0) + (if b then 1 else 0)))"
    by (simp add: add_numbers_def number_op_def)
  have call: "call2 ''add_numbers'' ''a'' ''b'' (add_numbers rt) (req_params request) =
      Inr (PInt ((if a then 1 else 0) + (if b then 1 else 0)))"
    using call2_bound [OF assms(3,4,5)] sum by simp
  have registry: "FUNCTION_REGISTRY rt (req_action request) =
      Some (Function (call2 ''add_numbers'' ''a'' ''b'' (add_numbers rt)))"
    using assms(2) by (simp add: FUNCTION_REGISTRY_def)
  have step: "handle_message rt (FUNCTION_REGISTRY rt) tr raw c =
           (c\<lparr>sent := sent c @
                [json_dumps rt
                   (PDict (make_response (req_request_id request) ''ok''
                             (PInt ((if a then 1 else 0) + (if b then 1 else 0)))))]\<rparr>,
            None)"
    using assms(1,6) registry call
    by (simp add: handle_message_def invoke_and_reply_def ws_send_def)
  show ?thesis
    using sum step by simp
qed

theorem add_numbers_booleans_witness:
  \<open>add_numbers sample_rt (PBool True) (PBool True) = Inr (PInt 2) \<and>
   handle_message sample_rt (FUNCTION_REGISTRY sample_rt) (reliable [])
      ''{"request_id": "r10", "action": "add_numbers", "params": {"a": true, "b": true}}''
      \<lparr>sent = [], logged = [ClientConnected]\<rparr> =
     (\<lparr>sent = [''{"request_id": "r10", "status": "ok", "result": 2}''],
       logged = [ClientConnected]\<rparr>, None)\<close>
proof -
  have send: "send_fault (reliable []) (sent \<lparr>sent = [], logged = [ClientConnected]\<rparr>) m = None"
    for m
    by (simp add: reliable_def)
  have action: "req_action \<lparr>req_request_id = PStr ''r10'', req_action = ''add_numbers'',
      req_params = [(''a'', PBool True), (''b'', PBool True :: unit pyval)]\<rparr> = ''add_numbers''"
    by simp
  have names: "set (map fst (req_params \<lparr>req_request_id = PStr ''r10'', req_action = ''add_numbers'',
      req_params = [(''a'', PBool True), (''b'', PBool True :: unit pyval)]\<rparr>)) \<subseteq> {''a'', ''b''}"
    by simp
  have a: "map_of (req_params \<lparr>req_request_id = PStr ''r10'', req_action = ''add_numbers'',
      req_params = [(''a'', PBool True), (''b'', PBool True :: unit pyval)]\<rparr>) ''a'' =
      Some (PBool True)"
    by simp
  have b: "map_of (req_params \<lparr>req_request_id = PStr ''r10'', req_action = ''add_numbers'',
      req_params = [(''a'', PBool True), (''b'', PBool True :: unit pyval)]\<rparr>) ''b'' =
      Some (PBool True)"
    by simp
  from add_numbers_booleans
    [where tr = "reliable []" and c = "\<lparr>sent = [], logged = [ClientConnected]\<rparr>",
      OF sample_parse_simps(5) action names a b send]
  show ?thesis
    using sample_dumps_simps(6) by simp
qed

section \<open>Order of the responses\<close>










end
